theory Spec2Isabelle
  imports Complex_Main
begin

section \<open>Python values and dictionaries\<close>

text \<open>
  A Python float is \<open>nan\<close>, an infinity or a finite number. Finite floats are idealised
  as reals: rounding and overflow are outside this development, which only looks at
  missingness, integrality and equality.
\<close>

datatype pyfloat = FNaN | FInf bool | FFin real

text \<open>
  The values that occur in the loader's records. Native Python values and numpy scalars
  are kept apart, because \<open>_normalize_record_types\<close> dispatches on \<open>isinstance\<close>.
  \<open>np.floating\<close> stands for \<open>float64\<close>, the only float dtype \<open>read_csv\<close> and
  \<open>to_numeric\<close> produce. A \<open>datetime64\<close> carries the text of
  \<open>pd.to_datetime(v).isoformat()\<close> (\<open>None\<close> when that raises) and the text of \<open>str(v)\<close>.
\<close>

datatype pyval =
    PNone
  | PInt int
  | PFloat pyfloat
  | PStr string
  | PBool bool
  | PNA
  | NpInt int
  | NpFloat pyfloat
  | NpBool bool
  | NpDatetime64 "string option" string

text \<open>A dict keeps insertion order; assigning to a key that exists keeps its position.\<close>

type_synonym 'v pydict = "(string \<times> 'v) list"

fun dict_set :: "'v pydict \<Rightarrow> string \<Rightarrow> 'v \<Rightarrow> 'v pydict" where
  "dict_set [] k v = [(k, v)]"
| "dict_set ((k', v') # d) k v = (if k' = k then (k, v) # d else (k', v') # dict_set d k v)"

definition dict_keys :: "'v pydict \<Rightarrow> string list" where
  "dict_keys d = map fst d"

text \<open>\<open>str.lower()\<close> on ASCII text.\<close>

definition char_lower :: "char \<Rightarrow> char" where
  "char_lower c =
     (let n = (of_char c :: nat) in if 65 \<le> n \<and> n \<le> 90 then char_of (n + 32) else c)"

definition lower :: "string \<Rightarrow> string" where
  "lower s = map char_lower s"

section \<open>load.py: record normalization\<close>

text \<open>\<open>float(v).is_integer()\<close> and \<open>int(float(v))\<close>.\<close>

fun is_integer :: "pyfloat \<Rightarrow> bool" where
  "is_integer (FFin r) = (of_int \<lfloor>r\<rfloor> = r)"
| "is_integer _ = False"

fun int_of_float :: "pyfloat \<Rightarrow> int" where
  "int_of_float (FFin r) = \<lfloor>r\<rfloor>"
| "int_of_float _ = 0"

text \<open>The \<open>isinstance\<close> chain of \<open>_normalize_record_types\<close>, in the source's order.\<close>

fun normalize_value :: "pyval \<Rightarrow> pyval" where
  "normalize_value PNone = PNone"
| "normalize_value (NpInt i) = PInt i"
| "normalize_value (NpFloat f) = (if is_integer f then PInt (int_of_float f) else PFloat f)"
| "normalize_value (NpBool b) = PBool b"
| "normalize_value (NpDatetime64 isofmt s) = (case isofmt of Some ts \<Rightarrow> PStr ts | None \<Rightarrow> PStr s)"
| "normalize_value v = v"

text \<open>The inner loop \<open>for k, v in rec.items()\<close>, building \<open>r2\<close>.\<close>

fun normalize_items :: "pyval pydict \<Rightarrow> pyval pydict \<Rightarrow> pyval pydict" where
  "normalize_items [] r2 = r2"
| "normalize_items ((k, v) # kvs) r2 = normalize_items kvs (dict_set r2 (lower k) (normalize_value v))"

definition normalize_record_types :: "pyval pydict list \<Rightarrow> pyval pydict list" where
  "normalize_record_types records = map (\<lambda>rec. normalize_items rec []) records"

section \<open>transform.py: data frames and feature engineering\<close>


















datatype py_error =
    KeyError string
  | TypeError string
  | AttributeError string
  | ZeroDivisionError
  | ValueError string
  | NameError string
  | RuntimeError string
  | FileNotFoundError string
  | ConnectionError string
  | SystemExit string


subsection \<open>Missingness of the severity score\<close>












section \<open>validate.py: the Telco validation\<close>

























section \<open>extract.py: primary source with retries, fallback source\<close>

text \<open>A JSON document as \<open>json.loads\<close> and \<open>resp.json()\<close> return it.\<close>

datatype json =
    JNull
  | JBool bool
  | JNum real
  | JStr string
  | JArr "json list"
  | JObj "(string \<times> json) list"

text \<open>Python's truth value of such a document (\<open>if data:\<close>).\<close>

fun truthy :: "json \<Rightarrow> bool" where
  "truthy JNull = False"
| "truthy (JBool b) = b"
| "truthy (JNum x) = (x \<noteq> 0)"
| "truthy (JStr s) = (s \<noteq> [])"
| "truthy (JArr xs) = (xs \<noteq> [])"
| "truthy (JObj kvs) = (kvs \<noteq> [])"

text \<open>
  One \<open>requests.get\<close>: it raises, or it returns a response with a status code and a body;
  \<open>resp.json()\<close> raises \<open>ValueError\<close> on a body that is not JSON (\<open>None\<close>).
\<close>

datatype http_result = Raises py_error | Response int "json option"

text \<open>
  The outside world of the extractor, as functions on a state \<open>'w\<close> the extractor cannot
  look into: the two upstream providers and the raw snapshot store (\<open>save_raw\<close>, which
  returns the path it wrote or raises).
\<close>

record 'w services =
  openaq_get :: "string \<Rightarrow> 'w \<Rightarrow> http_result \<times> 'w"
  meteo_get :: "real \<Rightarrow> real \<Rightarrow> 'w \<Rightarrow> http_result \<times> 'w"
  save_raw :: "string \<Rightarrow> json \<Rightarrow> 'w \<Rightarrow> (py_error + string) \<times> 'w"

text \<open>\<open>except Exception\<close> catches everything but \<open>SystemExit\<close>.\<close>

fun is_Exception :: "py_error \<Rightarrow> bool" where
  "is_Exception (SystemExit m) = False"
| "is_Exception _ = True"

text \<open>
  \<open>call_openaq_v3\<close>: the document when the status is 200 and \<open>data.get("results")\<close> is
  truthy, \<open>None\<close> otherwise; \<open>.get\<close> on a document that is not an object raises.
\<close>

definition call_openaq_v3 :: "'w services \<Rightarrow> string \<Rightarrow> 'w \<Rightarrow> (py_error + json option) \<times> 'w" where
  "call_openaq_v3 S city w =
     (case openaq_get S city w of
        (Raises e, w') \<Rightarrow> (Inl e, w')
      | (Response status body, w') \<Rightarrow>
          if status = 200 then
            (case body of
               None \<Rightarrow> (Inl (ValueError ''json''), w')
             | Some (JObj kvs) \<Rightarrow>
                 (case map_of kvs ''results'' of
                    None \<Rightarrow> (Inr None, w')
                  | Some results \<Rightarrow> if truthy results then (Inr (Some (JObj kvs)), w') else (Inr None, w'))
             | Some other \<Rightarrow> (Inl (AttributeError ''get''), w'))
          else (Inr None, w'))"

text \<open>\<open>call_open_meteo\<close>: the document when the status is 200, \<open>None\<close> otherwise.\<close>

definition call_open_meteo :: "'w services \<Rightarrow> real \<Rightarrow> real \<Rightarrow> 'w \<Rightarrow> (py_error + json option) \<times> 'w" where
  "call_open_meteo S lat lon w =
     (case meteo_get S lat lon w of
        (Raises e, w') \<Rightarrow> (Inl e, w')
      | (Response status body, w') \<Rightarrow>
          if status = 200 then
            (case body of None \<Rightarrow> (Inl (ValueError ''json''), w') | Some data \<Rightarrow> (Inr (Some data), w'))
          else (Inr None, w'))"

datatype source = OpenAQ | OpenMeteo

text \<open>The dict \<open>fetch_city\<close> returns: \<open>source\<close> and \<open>raw_path\<close> are \<open>None\<close> when both providers failed.\<close>

record fetch_result =
  city :: string
  source :: "source option"
  raw_path :: "string option"

text \<open>What the extractor does that can be seen from outside, in order.\<close>

datatype extract_event = PrimaryCall int | ExtractSleep int | FallbackCall

text \<open>
  The body of the \<open>try\<close> in the loop of \<open>fetch_city\<close>: the result when the call returned a
  truthy document and \<open>save_raw\<close> wrote it, \<open>None\<close> when the call returned nothing, and the
  exception the call or \<open>save_raw\<close> raised.
\<close>

definition try_primary :: "'w services \<Rightarrow> string \<Rightarrow> 'w \<Rightarrow> (py_error + fetch_result option) \<times> 'w" where
  "try_primary S c w =
     (case call_openaq_v3 S c w of
        (Inl e, w1) \<Rightarrow> (Inl e, w1)
      | (Inr None, w1) \<Rightarrow> (Inr None, w1)
      | (Inr (Some data), w1) \<Rightarrow>
          if truthy data then
            (case save_raw S c data w1 of
               (Inl e, w2) \<Rightarrow> (Inl e, w2)
             | (Inr path, w2) \<Rightarrow>
                 (Inr (Some \<lparr>city = c, source = Some OpenAQ, raw_path = Some path\<rparr>), w2))
          else (Inr None, w1))"

text \<open>
  The loop \<open>for attempt in range(1, MAX_RETRIES + 1)\<close> of \<open>fetch_city\<close>, from \<open>attempt\<close> on.
  An attempt that succeeds ends the loop with the result; an attempt that returns
  \<open>None\<close>, or raises an \<open>Exception\<close>, is followed by \<open>time.sleep(2 ** (attempt - 1))\<close> and
  the next attempt. \<open>Inr None\<close>: the loop ran out.
\<close>

function primary_loop ::
    "'w services \<Rightarrow> int \<Rightarrow> string \<Rightarrow> int \<Rightarrow> 'w \<Rightarrow> (py_error + fetch_result option) \<times> 'w \<times> extract_event list" where
  "primary_loop S MAX_RETRIES c attempt w =
     (if attempt \<le> MAX_RETRIES then
        (case try_primary S c w of
           (Inr (Some r), w') \<Rightarrow> (Inr (Some r), w', [PrimaryCall attempt])
         | (Inl e, w') \<Rightarrow>
             if is_Exception e then
               (case primary_loop S MAX_RETRIES c (attempt + 1) w' of
                  (res, w'', tr) \<Rightarrow>
                    (res, w'', PrimaryCall attempt # ExtractSleep (2 ^ nat (attempt - 1)) # tr))
             else (Inl e, w', [PrimaryCall attempt])
         | (Inr None, w') \<Rightarrow>
             (case primary_loop S MAX_RETRIES c (attempt + 1) w' of
                (res, w'', tr) \<Rightarrow>
                  (res, w'', PrimaryCall attempt # ExtractSleep (2 ^ nat (attempt - 1)) # tr)))
      else (Inr None, w, []))"
  by pat_completeness auto
termination
  by (relation "measure (\<lambda>(S, MAX_RETRIES, c, attempt, w). nat (MAX_RETRIES + 1 - attempt))") auto

declare primary_loop.simps [simp del]

text \<open>The coordinates of a city, \<open>info["lat"]\<close> and \<open>info["lon"]\<close>.\<close>

record city_info =
  lat :: real
  lon :: real

text \<open>
  \<open>fetch_city\<close>: the primary loop, then one fallback call outside any \<open>try\<close>: what the
  fallback call or \<open>save_raw\<close> raises there leaves \<open>fetch_city\<close>.
\<close>

definition fetch_city ::
    "'w services \<Rightarrow> int \<Rightarrow> string \<Rightarrow> city_info \<Rightarrow> 'w \<Rightarrow> (py_error + fetch_result) \<times> 'w \<times> extract_event list" where
  "fetch_city S MAX_RETRIES c info w =
     (case primary_loop S MAX_RETRIES c 1 w of
        (Inl e, w1, tr) \<Rightarrow> (Inl e, w1, tr)
      | (Inr (Some r), w1, tr) \<Rightarrow> (Inr r, w1, tr)
      | (Inr None, w1, tr) \<Rightarrow>
          (case call_open_meteo S (lat info) (lon info) w1 of
             (Inl e, w2) \<Rightarrow> (Inl e, w2, tr @ [FallbackCall])
           | (Inr None, w2) \<Rightarrow>
               (Inr \<lparr>city = c, source = None, raw_path = None\<rparr>, w2, tr @ [FallbackCall])
           | (Inr (Some fallback), w2) \<Rightarrow>
               if truthy fallback then
                 (case save_raw S c fallback w2 of
                    (Inl e, w3) \<Rightarrow> (Inl e, w3, tr @ [FallbackCall])
                  | (Inr path, w3) \<Rightarrow>
                      (Inr \<lparr>city = c, source = Some OpenMeteo, raw_path = Some path\<rparr>, w3,
                       tr @ [FallbackCall]))
               else (Inr \<lparr>city = c, source = None, raw_path = None\<rparr>, w2, tr @ [FallbackCall])))"

text \<open>
  \<open>fetch_all\<close>, over the items of the city table in order: an exception that leaves
  \<open>fetch_city\<close> leaves \<open>fetch_all\<close>, and the results collected so far are lost.
\<close>

fun fetch_all ::
    "'w services \<Rightarrow> int \<Rightarrow> (string \<times> city_info) list \<Rightarrow> 'w \<Rightarrow> (py_error + fetch_result list) \<times> 'w" where
  "fetch_all S MAX_RETRIES [] w = (Inr [], w)"
| "fetch_all S MAX_RETRIES ((c, info) # cities) w =
     (case fetch_city S MAX_RETRIES c info w of
        (Inl e, w', tr) \<Rightarrow> (Inl e, w')
      | (Inr r, w', tr) \<Rightarrow>
          (case fetch_all S MAX_RETRIES cities w' of
             (Inl e, w'') \<Rightarrow> (Inl e, w'')
           | (Inr rs, w'') \<Rightarrow> (Inr (r # rs), w'')))"

definition DEFAULT_CITIES :: "(string \<times> city_info) list" where
  "DEFAULT_CITIES =
     [(''Delhi'', \<lparr>lat = 28.7041, lon = 77.1025\<rparr>),
      (''Bengaluru'', \<lparr>lat = 12.9716, lon = 77.5946\<rparr>),
      (''Hyderabad'', \<lparr>lat = 17.3850, lon = 78.4867\<rparr>),
      (''Mumbai'', \<lparr>lat = 19.0760, lon = 72.8777\<rparr>),
      (''Kolkata'', \<lparr>lat = 22.5726, lon = 88.3639\<rparr>)]"

text \<open>The primary attempts in a trace, and the shape of the waits between them.\<close>

fun primary_attempts :: "extract_event list \<Rightarrow> int list" where
  "primary_attempts [] = []"
| "primary_attempts (PrimaryCall k # tr) = k # primary_attempts tr"
| "primary_attempts (e # tr) = primary_attempts tr"

fun extract_backoff :: "extract_event list \<Rightarrow> bool" where
  "extract_backoff [] = True"
| "extract_backoff (PrimaryCall k # ExtractSleep s # tr) = (s = 2 ^ nat (k - 1) \<and> extract_backoff tr)"
| "extract_backoff (ExtractSleep s # tr) = False"
| "extract_backoff (e # tr) = extract_backoff tr"

text \<open>
  A response of the primary source with status 200 and no results, and three worlds to
  run the extractor in: the primary source always answers so and the fallback answers
  with data; both sources raise a connection error; the primary source is unreachable
  twice and then answers with data.
\<close>

fun empty_results :: "http_result \<Rightarrow> bool" where
  "empty_results (Response status (Some (JObj kvs))) =
     (status = 200 \<and> (case map_of kvs ''results'' of None \<Rightarrow> True | Some results \<Rightarrow> \<not> truthy results))"
| "empty_results _ = False"

definition no_data_services :: "unit services" where
  "no_data_services =
     \<lparr>openaq_get = (\<lambda>c w. (Response 200 (Some (JObj [(''results'', JArr [])])), w)),
      meteo_get = (\<lambda>la lo w. (Response 200 (Some (JObj [(''hourly'', JObj [(''time'', JArr [])])])), w)),
      save_raw = (\<lambda>c d w. (Inr (c @ ''_raw.json''), w))\<rparr>"

definition offline_services :: "unit services" where
  "offline_services =
     \<lparr>openaq_get = (\<lambda>c w. (Raises (ConnectionError ''openaq''), w)),
      meteo_get = (\<lambda>la lo w. (Raises (ConnectionError ''open-meteo''), w)),
      save_raw = (\<lambda>c d w. (Inr (c @ ''_raw.json''), w))\<rparr>"

definition flaky_services :: "nat services" where
  "flaky_services =
     \<lparr>openaq_get = (\<lambda>c n.
        if n < 2 then (Raises (ConnectionError ''openaq''), Suc n)
        else (Response 200 (Some (JObj [(''results'', JArr [JObj []])])), Suc n)),
      meteo_get = (\<lambda>la lo n. (Response 500 None, n)),
      save_raw = (\<lambda>c d n. (Inr (c @ ''_raw.json''), n))\<rparr>"

section \<open>load.py: from the staged table to the records sent to the sink\<close>

text \<open>
  The staged table as \<open>read_csv\<close> returns it and as \<open>_normalize_for_insert\<close> reshapes it:
  the column labels in order, and the rows, each a list of values aligned with the
  labels. Renaming can make two labels equal, so labels are kept as a list. A cell that a
  row is too short to hold reads as \<open>None\<close>; rows of a table read from a file are never
  short.
\<close>

record table =
  labels :: "string list"
  body :: "pyval list list"

definition cell_at :: "pyval list \<Rightarrow> nat \<Rightarrow> pyval" where
  "cell_at row i = (if i < length row then row ! i else PNone)"

definition positions_of :: "string \<Rightarrow> string list \<Rightarrow> nat list" where
  "positions_of c ls = filter (\<lambda>i. ls ! i = c) [0..<length ls]"

text \<open>
  What the loader takes from pandas, value by value: \<open>to_datetime(errors="coerce")\<close>
  followed by \<open>isoformat()\<close> (\<open>None\<close> for a value that is no date); \<open>to_numeric(errors="coerce")\<close>;
  \<open>astype("Int64")\<close>, which raises for a value it cannot convert; \<open>where(notnull, None)\<close>,
  which turns a missing value into \<open>None\<close> or leaves it, depending on the column's dtype
  and the pandas version; and the boxing of \<open>to_dict(orient="records")\<close>.
\<close>

record pandas_loader =
  isoformat :: "pyval \<Rightarrow> string option"
  numeric :: "pyval \<Rightarrow> pyval"
  as_Int64 :: "pyval \<Rightarrow> pyval option"
  where_notnull :: "pyval \<Rightarrow> pyval"
  box :: "pyval \<Rightarrow> pyval"

definition expected_cols :: "string list" where
  "expected_cols =
     [''city'', ''time'', ''pm10'', ''pm2_5'', ''carbon_monoxide'',
      ''nitrogen_dioxide'', ''sulphur_dioxide'', ''ozone'', ''uv_index'',
      ''aqi_category'', ''severity_score'', ''risk_flag'', ''hour'']"

definition num_cols :: "string list" where
  "num_cols =
     [''pm10'', ''pm2_5'', ''carbon_monoxide'', ''nitrogen_dioxide'', ''sulphur_dioxide'',
      ''ozone'', ''uv_index'', ''severity_score'', ''hour'']"

text \<open>\<open>df.rename(columns=...)\<close>: a label the mapping does not mention stays.\<close>

definition rename_columns :: "(string \<Rightarrow> string) \<Rightarrow> table \<Rightarrow> table" where
  "rename_columns f df = df\<lparr>labels := map f (labels df)\<rparr>"

text \<open>
  The \<open>rename_map\<close> of \<open>_normalize_for_insert\<close>, built after the labels are lowercased. Its
  first entry has the key \<open>AQI_Category\<close> and is made only when the label \<open>AQI_CATEGORY\<close>
  exists.
\<close>

definition rename_map :: "string list \<Rightarrow> (string \<times> string) list" where
  "rename_map cols =
     (if ''aqi_category'' \<notin> set cols \<and> ''AQI_CATEGORY'' \<in> set cols
      then [(''AQI_Category'', ''aqi_category'')] else []) @
     (if ''risk_flag'' \<notin> set cols then
        (if ''risk_level'' \<in> set cols then [(''risk_level'', ''risk_flag'')] else []) @
        (if ''risk'' \<in> set cols then [(''risk'', ''risk_flag'')] else [])
      else [])"

definition apply_rename :: "(string \<times> string) list \<Rightarrow> string \<Rightarrow> string" where
  "apply_rename m c = (case map_of m c of Some c' \<Rightarrow> c' | None \<Rightarrow> c)"

text \<open>The loop \<open>for col in expected_cols: if col not in df.columns: df[col] = None\<close>.\<close>

fun ensure_columns :: "string list \<Rightarrow> table \<Rightarrow> table" where
  "ensure_columns [] df = df"
| "ensure_columns (col # cols) df =
     ensure_columns cols
       (if col \<notin> set (labels df)
        then \<lparr>labels = labels df @ [col], body = map (\<lambda>row. row @ [PNone]) (body df)\<rparr>
        else df)"

text \<open>
  \<open>df[col] = f(df[col])\<close> for a label that exists. When the label occurs twice,
  \<open>df[col]\<close> is a frame and not a column, and \<open>to_datetime\<close> and \<open>to_numeric\<close> raise.
\<close>

definition map_column :: "py_error \<Rightarrow> string \<Rightarrow> (pyval \<Rightarrow> pyval) \<Rightarrow> table \<Rightarrow> py_error + table" where
  "map_column err col f df =
     (case positions_of col (labels df) of
        [i] \<Rightarrow> Inr (df\<lparr>body := map (\<lambda>row. row[i := f (cell_at row i)]) (body df)\<rparr>)
      | _ \<Rightarrow> Inl err)"

text \<open>The loop \<open>for col in num_cols: if col in df.columns: df[col] = pd.to_numeric(...)\<close>.\<close>

fun numeric_columns :: "pandas_loader \<Rightarrow> string list \<Rightarrow> table \<Rightarrow> py_error + table" where
  "numeric_columns P [] df = Inr df"
| "numeric_columns P (col # cols) df =
     (if col \<in> set (labels df) then
        (case map_column (TypeError ''to_numeric'') col (numeric P) df of
           Inl e \<Rightarrow> Inl e
         | Inr df' \<Rightarrow> numeric_columns P cols df')
      else numeric_columns P cols df)"

text \<open>
  \<open>df["hour"] = df["hour"].astype("Int64")\<close> inside \<open>try ... except Exception: pass\<close>: the
  column changes only when every value converts.
\<close>

definition hour_Int64 :: "pandas_loader \<Rightarrow> table \<Rightarrow> table" where
  "hour_Int64 P df =
     (if ''hour'' \<in> set (labels df) then
        (case positions_of ''hour'' (labels df) of
           [i] \<Rightarrow>
             if list_all (\<lambda>row. as_Int64 P (cell_at row i) \<noteq> None) (body df)
             then df\<lparr>body := map (\<lambda>row. row[i := the (as_Int64 P (cell_at row i))]) (body df)\<rparr>
             else df
         | _ \<Rightarrow> df)
      else df)"

text \<open>
  \<open>df[expected_cols]\<close>: for every requested label, in order, all the columns that carry it.
  Every requested label exists by then.
\<close>

definition select_columns :: "string list \<Rightarrow> table \<Rightarrow> table" where
  "select_columns cols df =
     (let ps = concat (map (\<lambda>c. positions_of c (labels df)) cols)
      in \<lparr>labels = map (\<lambda>i. labels df ! i) ps, body = map (\<lambda>row. map (cell_at row) ps) (body df)\<rparr>)"

definition normalize_for_insert :: "pandas_loader \<Rightarrow> table \<Rightarrow> py_error + table" where
  "normalize_for_insert P df0 =
     (let df1 = rename_columns lower df0;
          df2 = rename_columns (apply_rename (rename_map (labels df1))) df1;
          df3 = ensure_columns expected_cols df2
      in case map_column (ValueError ''to_datetime'') ''time''
                (\<lambda>v. case isoformat P v of Some t \<Rightarrow> PStr t | None \<Rightarrow> PNone) df3 of
           Inl e \<Rightarrow> Inl e
         | Inr df4 \<Rightarrow>
             (case numeric_columns P num_cols df4 of
                Inl e \<Rightarrow> Inl e
              | Inr df5 \<Rightarrow>
                  let df6 = hour_Int64 P df5;
                      df7 = df6\<lparr>body := map (map (where_notnull P)) (body df6)\<rparr>
                  in Inr (select_columns expected_cols df7)))"

text \<open>\<open>df.to_dict(orient="records")\<close>: each row as \<open>dict(zip(columns, row))\<close>, values boxed.\<close>

fun dict_of_items :: "(string \<times> 'v) list \<Rightarrow> 'v pydict \<Rightarrow> 'v pydict" where
  "dict_of_items [] d = d"
| "dict_of_items ((k, v) # kvs) d = dict_of_items kvs (dict_set d k v)"

definition to_dict_records :: "pandas_loader \<Rightarrow> table \<Rightarrow> pyval pydict list" where
  "to_dict_records P df = map (\<lambda>row. dict_of_items (zip (labels df) (map (box P) row)) []) (body df)"

text \<open>
  The defensive cleaning in the batch loop: \<open>isinstance(v, float) and math.isnan(v)\<close>. An
  \<open>np.float64\<close> is a \<open>float\<close>.
\<close>

fun is_nan :: "pyval \<Rightarrow> bool" where
  "is_nan (PFloat FNaN) = True"
| "is_nan (NpFloat FNaN) = True"
| "is_nan _ = False"

definition clean_record :: "pyval pydict \<Rightarrow> pyval pydict" where
  "clean_record rec = map (\<lambda>(k, v). (k, if is_nan v then PNone else v)) rec"

section \<open>load.py: batches, retries and the load report\<close>

text \<open>
  One \<open>insert(batch).execute()\<close>: it raises, or it returns a response that may carry an
  error. The sink is a function on a state \<open>'w\<close> the loader cannot look into;
  \<open>get_supabase_client\<close> can raise before the first batch.
\<close>

datatype sink_response = Returned "string option" | Raised py_error

record 'w sink =
  connect :: "'w \<Rightarrow> (py_error + unit) \<times> 'w"
  insert_rows :: "pyval pydict list \<Rightarrow> 'w \<Rightarrow> sink_response \<times> 'w"

text \<open>The truth value of \<open>response.error\<close>.\<close>

fun has_error :: "string option \<Rightarrow> bool" where
  "has_error None = False"
| "has_error (Some e) = (e \<noteq> [])"

text \<open>
  What the loader does that can be seen from outside, in order: an insert call (batch
  number, attempt number, the records passed), a sleep, and the line printed for a batch
  that was inserted (batch number, number of records).
\<close>

datatype load_event = InsertCall int int "pyval pydict list" | LoadSleep int | InsertedRows int nat

text \<open>
  The wait after a failed attempt: \<open>if attempt <= RETRY_COUNT: time.sleep(2 ** (attempt - 1))\<close>.
\<close>

definition backoff_sleep :: "int \<Rightarrow> int \<Rightarrow> load_event list" where
  "backoff_sleep RETRY_COUNT attempt =
     (if attempt \<le> RETRY_COUNT then [LoadSleep (2 ^ nat (attempt - 1))] else [])"

text \<open>
  The loop \<open>while attempt <= RETRY_COUNT and not success\<close> for one batch, entered with
  \<open>success = False\<close> and the value \<open>attempt0\<close> of \<open>attempt\<close>; the body starts with
  \<open>attempt += 1\<close>. It returns \<open>success\<close> and \<open>last_err\<close>.
\<close>

function insert_attempts ::
    "'w sink \<Rightarrow> int \<Rightarrow> int \<Rightarrow> pyval pydict list \<Rightarrow> int \<Rightarrow> string option \<Rightarrow> 'w \<Rightarrow>
     (py_error + bool \<times> string option) \<times> 'w \<times> load_event list" where
  "insert_attempts K RETRY_COUNT batch_no batch attempt0 last_err w =
     (if attempt0 \<le> RETRY_COUNT then
        (case insert_rows K batch w of
           (Returned err, w') \<Rightarrow>
             if has_error err then
               (case insert_attempts K RETRY_COUNT batch_no batch (attempt0 + 1) err w' of
                  (res, w'', tr) \<Rightarrow>
                    (res, w'',
                     InsertCall batch_no (attempt0 + 1) batch # backoff_sleep RETRY_COUNT (attempt0 + 1) @ tr))
             else
               (Inr (True, last_err), w',
                [InsertCall batch_no (attempt0 + 1) batch, InsertedRows batch_no (length batch)])
         | (Raised e, w') \<Rightarrow>
             if is_Exception e then
               (case insert_attempts K RETRY_COUNT batch_no batch (attempt0 + 1) (Some ''exception'') w' of
                  (res, w'', tr) \<Rightarrow>
                    (res, w'',
                     InsertCall batch_no (attempt0 + 1) batch # backoff_sleep RETRY_COUNT (attempt0 + 1) @ tr))
             else (Inl e, w', [InsertCall batch_no (attempt0 + 1) batch]))
      else (Inr (False, last_err), w, []))"
  by pat_completeness auto
termination
  by (relation "measure (\<lambda>(K, RETRY_COUNT, batch_no, batch, attempt0, last_err, w).
        nat (RETRY_COUNT + 1 - attempt0))") auto

declare insert_attempts.simps [simp del]

record failed_batch =
  fb_batch :: int
  fb_size :: nat
  fb_error :: "string option"

record load_report =
  total :: nat
  inserted :: nat
  failed_batches :: "failed_batch list"

text \<open>
  The batch that starts at row \<open>i\<close>: the slice \<open>records[i: i + BATCH_SIZE]\<close>, cleaned and
  normalized.
\<close>

definition prepare_batch :: "int \<Rightarrow> pyval pydict list \<Rightarrow> int \<Rightarrow> pyval pydict list" where
  "prepare_batch BATCH_SIZE records i =
     normalize_record_types (map clean_record (take (nat BATCH_SIZE) (drop (nat i) records)))"

text \<open>
  The loop \<open>for i in range(0, total, BATCH_SIZE)\<close> from \<open>i\<close> on, for a positive step, with
  the counters \<open>inserted\<close> and \<open>failed_batches\<close> as they stand. The batch number is
  \<open>(i // BATCH_SIZE) + 1\<close>.
\<close>

function batch_loop ::
    "'w sink \<Rightarrow> int \<Rightarrow> int \<Rightarrow> pyval pydict list \<Rightarrow> int \<Rightarrow> nat \<Rightarrow> failed_batch list \<Rightarrow> 'w \<Rightarrow>
     (py_error + nat \<times> failed_batch list) \<times> 'w \<times> load_event list" where
  "batch_loop K BATCH_SIZE RETRY_COUNT records i ins failed w =
     (if 0 < BATCH_SIZE \<and> 0 \<le> i \<and> i < int (length records) then
        (case insert_attempts K RETRY_COUNT (i div BATCH_SIZE + 1)
                (prepare_batch BATCH_SIZE records i) 0 None w of
           (Inl e, w', tr) \<Rightarrow> (Inl e, w', tr)
         | (Inr (success, last_err), w', tr) \<Rightarrow>
             (case batch_loop K BATCH_SIZE RETRY_COUNT records (i + BATCH_SIZE)
                     (if success then ins + length (prepare_batch BATCH_SIZE records i) else ins)
                     (if success then failed
                      else failed @
                        [\<lparr>fb_batch = i div BATCH_SIZE + 1,
                          fb_size = length (prepare_batch BATCH_SIZE records i),
                          fb_error = last_err\<rparr>])
                     w' of
                (res, w'', tr') \<Rightarrow> (res, w'', tr @ tr')))
      else (Inr (ins, failed), w, []))"
  by pat_completeness auto
termination
  by (relation "measure (\<lambda>(K, BATCH_SIZE, RETRY_COUNT, records, i, ins, failed, w).
        nat (int (length records) - i))") auto

declare batch_loop.simps [simp del]

text \<open>
  \<open>load_to_supabase\<close>. \<open>None\<close> for the staged table: the file could not be read, which is
  caught, printed and answered with \<open>None\<close>, as is a table without rows. A batch size of
  zero raises in \<open>math.ceil(total / BATCH_SIZE)\<close>; a negative one makes the range empty.
\<close>

definition load_to_supabase ::
    "pandas_loader \<Rightarrow> 'w sink \<Rightarrow> int \<Rightarrow> int \<Rightarrow> table option \<Rightarrow> 'w \<Rightarrow>
     (py_error + load_report option) \<times> 'w \<times> load_event list" where
  "load_to_supabase P K BATCH_SIZE RETRY_COUNT staged w =
     (case staged of
        None \<Rightarrow> (Inr None, w, [])
      | Some df \<Rightarrow>
          (case normalize_for_insert P df of
             Inl e \<Rightarrow> (Inl e, w, [])
           | Inr df_norm \<Rightarrow>
               let records = to_dict_records P df_norm in
               if length records = 0 then (Inr None, w, [])
               else
                 (case connect K w of
                    (Inl e, w1) \<Rightarrow> (Inl e, w1, [])
                  | (Inr u, w1) \<Rightarrow>
                      if BATCH_SIZE = 0 then (Inl ZeroDivisionError, w1, [])
                      else
                        (case batch_loop K BATCH_SIZE RETRY_COUNT records 0 0 [] w1 of
                           (Inl e, w2, tr) \<Rightarrow> (Inl e, w2, tr)
                         | (Inr (ins, failed), w2, tr) \<Rightarrow>
                             (Inr (Some \<lparr>total = length records, inserted = ins, failed_batches = failed\<rparr>),
                              w2, tr)))))"

text \<open>The records the loader works on, and its batches by number (from 1).\<close>

definition staged_records :: "pandas_loader \<Rightarrow> table \<Rightarrow> pyval pydict list" where
  "staged_records P df = (case normalize_for_insert P df of Inl e \<Rightarrow> [] | Inr df_norm \<Rightarrow> to_dict_records P df_norm)"

definition batch_count :: "int \<Rightarrow> 'a list \<Rightarrow> int" where
  "batch_count BATCH_SIZE records = (int (length records) + BATCH_SIZE - 1) div BATCH_SIZE"

definition batch_slice :: "int \<Rightarrow> 'a list \<Rightarrow> int \<Rightarrow> 'a list" where
  "batch_slice BATCH_SIZE records b = take (nat BATCH_SIZE) (drop (nat ((b - 1) * BATCH_SIZE)) records)"

text \<open>What a trace says: the batches inserted, the attempts made per batch, the waits.\<close>

fun inserted_batches :: "load_event list \<Rightarrow> (int \<times> nat) list" where
  "inserted_batches [] = []"
| "inserted_batches (InsertedRows b n # tr) = (b, n) # inserted_batches tr"
| "inserted_batches (e # tr) = inserted_batches tr"

fun insert_calls :: "load_event list \<Rightarrow> (int \<times> int \<times> pyval pydict list) list" where
  "insert_calls [] = []"
| "insert_calls (InsertCall b a batch # tr) = (b, a, batch) # insert_calls tr"
| "insert_calls (e # tr) = insert_calls tr"

fun load_backoff :: "load_event list \<Rightarrow> bool" where
  "load_backoff [] = True"
| "load_backoff (InsertCall b a batch # LoadSleep s # tr) = (s = 2 ^ nat (a - 1) \<and> load_backoff tr)"
| "load_backoff (LoadSleep s # tr) = False"
| "load_backoff (e # tr) = load_backoff tr"

section \<open>Facts about dictionaries and lowercasing\<close>

lemma char_lower_idem: "char_lower (char_lower c) = char_lower c"
proof (cases "65 \<le> (of_char c :: nat) \<and> (of_char c :: nat) \<le> 90")
  case True
  then have low: "char_lower c = char_of (of_char c + 32 :: nat)"
    by (simp add: char_lower_def Let_def)
  from True have "(of_char (char_of (of_char c + 32 :: nat)) :: nat) = of_char c + 32"
    by (simp add: of_char_of)
  with True have "\<not> (of_char (char_lower c) :: nat) \<le> 90"
    by (simp add: low)
  then show ?thesis
    by (simp add: char_lower_def [of "char_lower c"] Let_def)
next
  case False
  then have "char_lower c = c"
    by (auto simp: char_lower_def Let_def)
  then show ?thesis by simp
qed

lemma lower_idem: "lower (lower s) = lower s"
  by (simp add: lower_def char_lower_idem)

lemma dict_keys_set:
  "dict_keys (dict_set d k v) = (if k \<in> set (dict_keys d) then dict_keys d else dict_keys d @ [k])"
  by (induction d) (force simp: dict_keys_def)+

lemma dict_set_append_new: "k \<notin> set (dict_keys d) \<Longrightarrow> dict_set d k v = d @ [(k, v)]"
  by (induction d) (auto simp: dict_keys_def)

lemma normalize_value_idem: "normalize_value (normalize_value v) = normalize_value v"
  by (cases v) (auto split: option.splits)

text \<open>A record whose keys are distinct and lowercase and whose values are normal.\<close>

definition normal_record :: "pyval pydict \<Rightarrow> bool" where
  "normal_record d \<longleftrightarrow>
     distinct (dict_keys d) \<and>
     (\<forall>(k, v) \<in> set d. lower k = k \<and> normalize_value v = v)"

lemma normal_record_set:
  assumes "normal_record d"
  shows "normal_record (dict_set d (lower k) (normalize_value v))"
  using assms
proof (induction d)
  case Nil
  then show ?case
    by (simp add: normal_record_def dict_keys_def lower_idem normalize_value_idem)
next
  case (Cons p d)
  obtain k' v' where p: "p = (k', v')" by (cases p)
  from Cons.prems have tl: "normal_record d"
    by (simp add: normal_record_def dict_keys_def)
  from Cons.IH [OF tl] have ih: "normal_record (dict_set d (lower k) (normalize_value v))" .
  show ?case
  proof (cases "k' = lower k")
    case True
    with Cons.prems p show ?thesis
      by (simp add: normal_record_def dict_keys_def lower_idem normalize_value_idem)
  next
    case False
    have keys: "set (dict_keys (dict_set d (lower k) (normalize_value v))) \<subseteq> insert (lower k) (set (dict_keys d))"
      by (auto simp: dict_keys_set split: if_splits)
    from Cons.prems p have "k' \<notin> set (dict_keys d)" "lower k' = k'" "normalize_value v' = v'"
      by (auto simp: normal_record_def dict_keys_def)
    with False keys ih p show ?thesis
      by (auto simp: normal_record_def dict_keys_def)
  qed
qed

lemma normalize_items_normal:
  "normal_record r2 \<Longrightarrow> normal_record (normalize_items rec r2)"
proof (induction rec arbitrary: r2)
  case Nil
  then show ?case by simp
next
  case (Cons p rec)
  obtain k v where p: "p = (k, v)" by (cases p)
  from Cons.prems have "normal_record (dict_set r2 (lower k) (normalize_value v))"
    by (rule normal_record_set)
  with Cons.IH p show ?case by simp
qed

lemma normalize_items_fixed:
  assumes "normal_record (r2 @ d)"
  shows "normalize_items d r2 = r2 @ d"
  using assms
proof (induction d arbitrary: r2)
  case Nil
  then show ?case by simp
next
  case (Cons p d)
  obtain k v where p: "p = (k, v)" by (cases p)
  from Cons.prems p have fixed: "lower k = k" "normalize_value v = v" and new: "k \<notin> set (dict_keys r2)"
    by (auto simp: normal_record_def dict_keys_def)
  from new have step: "dict_set r2 k v = r2 @ [(k, v)]"
    by (rule dict_set_append_new)
  from Cons.prems p have "normal_record ((r2 @ [(k, v)]) @ d)" by simp
  from Cons.IH [OF this] have "normalize_items d (r2 @ [(k, v)]) = (r2 @ [(k, v)]) @ d" .
  with p fixed step show ?case by simp
qed

section \<open>Claims\<close>

text \<open>
  C7: the loader's pre-insert record normalization is idempotent. A record that has
  been through \<open>_normalize_record_types\<close> (keys lowercased, numpy scalars made native,
  integral numpy floats made integers, missing values \<open>None\<close>) comes back unchanged,
  keys in the same order, when the normalization is applied again.
\<close>

theorem normalize_record_types_idempotent:
  "normalize_record_types (normalize_record_types records) = normalize_record_types records"
proof -
  have "normalize_items (normalize_items rec []) [] = normalize_items rec []" for rec
  proof -
    have "normal_record (normalize_items rec [])"
      by (rule normalize_items_normal) (simp add: normal_record_def dict_keys_def)
    then have "normal_record ([] @ normalize_items rec [])" by simp
    from normalize_items_fixed [OF this] show ?thesis by simp
  qed
  then show ?thesis by (simp add: normalize_record_types_def)
qed

section \<open>transform.py: the severity score\<close>






















section \<open>validate.py: the per-field checks\<close>







section \<open>extract.py: retries, fallback and outcomes\<close>

lemma extract_backoff_fallback: "extract_backoff (tr @ [FallbackCall]) = extract_backoff tr"
  by (induction tr rule: extract_backoff.induct) simp_all

lemma primary_attempts_fallback: "primary_attempts (tr @ [FallbackCall]) = primary_attempts tr"
  by (induction tr rule: primary_attempts.induct) simp_all

lemma primary_loop_backoff: "extract_backoff (snd (snd (primary_loop S M c a w)))"
proof (induction S M c a w rule: primary_loop.induct)
  case (1 S M c a w)
  show ?case
    using "1.IH"
    by (subst primary_loop.simps) (auto split: prod.splits sum.splits option.splits)
qed

lemma primary_loop_attempts:
  "primary_attempts (snd (snd (primary_loop S M c a w))) =
     [a .. a + int (length (primary_attempts (snd (snd (primary_loop S M c a w))))) - 1]"
proof (induction S M c a w rule: primary_loop.induct)
  case (1 S M c a w)
  show ?case
    using "1.IH"
    by (subst (1 2) primary_loop.simps) (auto split: prod.splits sum.splits option.splits simp: upto_rec1)
qed

lemma primary_loop_count:
  "int (length (primary_attempts (snd (snd (primary_loop S M c a w))))) \<le> max 0 (M + 1 - a)"
proof (induction S M c a w rule: primary_loop.induct)
  case (1 S M c a w)
  show ?case
    using "1.IH"
    by (subst primary_loop.simps) (auto split: prod.splits sum.splits option.splits)
qed


lemma try_primary_empty:
  assumes "empty_results (fst (openaq_get S c w))"
  shows "fst (try_primary S c w) = Inr None"
proof (cases "openaq_get S c w")
  case (Pair res w')
  with assms have e: "empty_results res" by simp
  then obtain status kvs where res: "res = Response status (Some (JObj kvs))"
    by (cases res rule: empty_results.cases) auto
  from e res Pair show ?thesis
    by (auto simp: try_primary_def call_openaq_v3_def split: option.splits)
qed

lemma primary_loop_empty:
  assumes "\<forall>w. empty_results (fst (openaq_get S c w))"
  shows "fst (primary_loop S M c a w) = Inr None \<and>
     snd (snd (primary_loop S M c a w)) =
       concat (map (\<lambda>k. [PrimaryCall k, ExtractSleep (2 ^ nat (k - 1))]) [a..M])"
  using assms
proof (induction S M c a w rule: primary_loop.induct)
  case (1 S M c a w)
  from "1.prems" have t: "fst (try_primary S c w) = Inr None"
    by (simp add: try_primary_empty)
  show ?case
  proof (cases "a \<le> M")
    case True
    obtain w' where tp: "try_primary S c w = (Inr None, w')"
      using t by (cases "try_primary S c w") auto
    from "1.IH"(2) [OF True tp [symmetric]] "1.prems"
    have ih: "fst (primary_loop S M c (a + 1) w') = Inr None \<and>
       snd (snd (primary_loop S M c (a + 1) w')) =
         concat (map (\<lambda>k. [PrimaryCall k, ExtractSleep (2 ^ nat (k - 1))]) [a + 1..M])"
      by simp
    from True have up: "[a..M] = a # [a + 1..M]"
      by (simp add: upto_rec1)
    from True tp ih show ?thesis
      by (subst (1 2) primary_loop.simps) (auto simp: up split: prod.splits)
  next
    case False
    then show ?thesis
      by (subst (1 2) primary_loop.simps) simp
  qed
qed

text \<open>
  C3, as the code has it: a response of the primary source with status 200 and empty
  results makes \<open>call_openaq_v3\<close> return \<open>None\<close>, which the loop of \<open>fetch_city\<close> treats
  like any failed attempt. When the primary source keeps answering so, the extractor makes
  all \<open>MAX_RETRIES\<close> primary attempts, sleeping \<open>2 ** (attempt - 1)\<close> seconds after each, and
  only then calls the fallback source, once.
\<close>

theorem empty_primary_results_are_retried:
  assumes "\<forall>w. empty_results (fst (openaq_get S c w))"
  shows "snd (snd (fetch_city S M c info w)) =
     concat (map (\<lambda>k. [PrimaryCall k, ExtractSleep (2 ^ nat (k - 1))]) [1..M]) @ [FallbackCall]"
proof -
  obtain w1 tr where p: "primary_loop S M c 1 w = (Inr None, w1, tr)"
    and tr: "tr = concat (map (\<lambda>k. [PrimaryCall k, ExtractSleep (2 ^ nat (k - 1))]) [1..M])"
    using primary_loop_empty [OF assms, of M 1 w]
    by (cases "primary_loop S M c 1 w") auto
  show ?thesis
    by (simp add: fetch_city_def p tr split: prod.splits sum.splits option.splits)
qed

theorem empty_primary_results_are_retried_witness:
  "snd (snd (fetch_city no_data_services 2 ''Mumbai'' \<lparr>lat = 19.0760, lon = 72.8777\<rparr> ())) =
     [PrimaryCall 1, ExtractSleep 1, PrimaryCall 2, ExtractSleep 2, FallbackCall]"
proof -
  have "\<forall>w. empty_results (fst (openaq_get no_data_services ''Mumbai'' w))"
    by (simp add: no_data_services_def)
  from empty_primary_results_are_retried [OF this, of 2 "\<lparr>lat = 19.0760, lon = 72.8777\<rparr>" "()"]
  show ?thesis by (simp add: upto_rec1)
qed

text \<open>
  The claim as stated fails: with \<open>MAX_RETRIES = 3\<close> and a primary source that answers 200
  with empty results, the fallback is reached after three primary attempts and three
  sleeps, not after the first response.
\<close>

theorem empty_primary_results_use_every_retry:
  "fetch_city no_data_services 3 ''Delhi'' \<lparr>lat = 28.7041, lon = 77.1025\<rparr> () =
     (Inr \<lparr>city = ''Delhi'', source = Some OpenMeteo, raw_path = Some ''Delhi_raw.json''\<rparr>, (),
      [PrimaryCall 1, ExtractSleep 1, PrimaryCall 2, ExtractSleep 2, PrimaryCall 3, ExtractSleep 4,
       FallbackCall])"
  by (simp add: fetch_city_def primary_loop.simps try_primary_def call_openaq_v3_def
      call_open_meteo_def no_data_services_def)

lemma primary_loop_city:
  "fst (primary_loop S M c a w) = Inr (Some r) \<Longrightarrow> city r = c"
proof (induction S M c a w rule: primary_loop.induct)
  case (1 S M c a w)
  from "1.prems" show ?case
    using "1.IH"
    by (subst (asm) primary_loop.simps)
       (auto simp: try_primary_def split: prod.splits sum.splits option.splits if_splits)
qed

lemma fetch_city_city:
  "fst (fetch_city S M c info w) = Inr r \<Longrightarrow> city r = c"
  using primary_loop_city [of S M c 1 w]
  by (auto simp: fetch_city_def split: prod.splits sum.splits option.splits if_splits)

lemma fetch_all_one_result_per_city:
  "fst (fetch_all S M cities w) = Inr rs \<Longrightarrow> map city rs = map fst cities"
proof (induction cities arbitrary: w rs)
  case Nil
  then show ?case by simp
next
  case (Cons p cities)
  obtain c info where p: "p = (c, info)" by (cases p)
  from Cons.prems p obtain r w' tr rs' w'' where
    r: "fetch_city S M c info w = (Inr r, w', tr)" and
    rest: "fetch_all S M cities w' = (Inr rs', w'')" and rs: "rs = r # rs'"
    by (auto split: prod.splits sum.splits)
  from r have "city r = c" using fetch_city_city [of S M c info w r] by simp
  moreover from rest have "map city rs' = map fst cities"
    using Cons.IH [of w' rs'] by simp
  ultimately show ?case by (simp add: rs p)
qed

text \<open>
  C6 at a failing input: the network is down, so every call to either source raises
  \<open>ConnectionError\<close>. The primary attempts catch it; the fallback call stands outside any
  \<open>try\<close>, so the exception leaves \<open>fetch_city\<close> and \<open>fetch_all\<close>, which returns no outcome for
  any city, where the claim promises one recorded failure per city.
\<close>

theorem fetch_all_aborts_when_fallback_raises:
  "fetch_all offline_services 3 DEFAULT_CITIES () = (Inl (ConnectionError ''open-meteo''), ())"
  by (simp add: DEFAULT_CITIES_def fetch_city_def primary_loop.simps try_primary_def
      call_openaq_v3_def call_open_meteo_def offline_services_def)

end
